theory Spec2Isabelle
  imports Main "HOL-Library.Word" "HOL-Library.Multiset"
begin

section \<open>JavaScript values and library functions the pages call\<close>

text \<open>
  Strings are lists of code units below 256. Dates are JavaScript \<open>Date\<close> values, read as
  milliseconds since the epoch. An exception of the platform is a value of \<open>error\<close>; a
  function that can raise returns \<open>error + 'a\<close>, and an event handler whose body cannot
  raise returns \<open>Inr\<close> in every branch.
\<close>

datatype error = TypeError | QuotaExceededError

type_synonym date = int

text \<open>
  \<open>String.prototype.trim\<close>: the white space and line terminators of ECMAScript that
  lie below 256 (tab, line feed, vertical tab, form feed, carriage return, space,
  no-break space).
\<close>

definition isSpace :: "char \<Rightarrow> bool" where
  "isSpace c = (c \<in> set [CHR 0x09, CHR 0x0A, CHR 0x0B, CHR 0x0C, CHR 0x0D, CHR 0x20, CHR 0xA0])"

definition trim :: "string \<Rightarrow> string" where
  "trim s = rev (dropWhile isSpace (rev (dropWhile isSpace s)))"

text \<open>\<open>Array.prototype.findIndex\<close>: the first index whose element satisfies \<open>p\<close>, or \<open>-1\<close>.\<close>

fun findIndex :: "('a \<Rightarrow> bool) \<Rightarrow> 'a list \<Rightarrow> int" where
  "findIndex p [] = - 1"
| "findIndex p (x # xs) =
     (if p x then 0 else (let k = findIndex p xs in if k < 0 then - 1 else k + 1))"

text \<open>
  \<open>Array.prototype.splice\<close> clamps its start: a negative start counts from the end and
  stops at 0, a start beyond the end is the length.
\<close>

definition spliceStart :: "nat \<Rightarrow> int \<Rightarrow> nat" where
  "spliceStart len start =
     (if start < 0 then nat (max (int len + start) 0) else min (nat start) len)"

text \<open>
  \<open>arrayMove\<close> of \<open>@dnd-kit/sortable\<close>, which \<open>handleDragEnd\<close> imports:
  \<^verbatim>\<open>
  const newArray = array.slice();
  newArray.splice(to < 0 ? newArray.length + to : to, 0, newArray.splice(from, 1)[0]);
  return newArray;
  \<close>
  The first argument of the outer \<open>splice\<close> is evaluated before the inner \<open>splice\<close>
  removes the element. When the inner \<open>splice\<close> removes nothing (only on an array with
  no element at the clamped start, that is an empty array) the element inserted is
  \<open>undefined\<close>: the result is then \<open>None\<close>, a list holding \<open>undefined\<close> having no
  value among lists of entities.
\<close>

definition arrayMove :: "'a list \<Rightarrow> int \<Rightarrow> int \<Rightarrow> 'a list option" where
  "arrayMove array from to =
     (let newArray = array;
          start = (if to < 0 then int (length newArray) + to else to);
          a = spliceStart (length newArray) from
      in if a < length newArray
         then (let item = newArray ! a;
                   rest = take a newArray @ drop (Suc a) newArray;
                   b = spliceStart (length rest) start
               in Some (take b rest @ [item] @ drop b rest))
         else None)"

text \<open>
  The array move in the words of the specification: remove the element at index \<open>i\<close>,
  reinsert it at index \<open>j\<close>.
\<close>

definition move_spec :: "'a list \<Rightarrow> nat \<Rightarrow> nat \<Rightarrow> 'a list" where
  "move_spec xs i j =
     (let rest = take i xs @ drop (Suc i) xs in take j rest @ [xs ! i] @ drop j rest)"

section \<open>Passwords page: \<open>generatePassword\<close>\<close>

definition charset :: string where
  "charset = ''abcdefghijklmnopqrstuvwxyzABCDEFGHIJKLMNOPQRSTUVWXYZ0123456789!@#$%^&*()_+-=[]{}|;:,.<>?''"

text \<open>
  The \<open>for\<close> loop of \<open>generatePassword\<close>. \<open>array i\<close> is the 32-bit value the random
  source wrote at index \<open>i\<close> of the \<open>Uint32Array\<close>.
\<close>

function generatePassword_loop :: "nat \<Rightarrow> nat \<Rightarrow> (nat \<Rightarrow> 32 word) \<Rightarrow> string \<Rightarrow> string" where
  "generatePassword_loop i len array password =
     (if i < len
      then generatePassword_loop (Suc i) len array
             (password @ [charset ! (unat (array i) mod length charset)])
      else password)"
  by pat_completeness auto
termination
  by (relation "measure (\<lambda>(i, len, array, password). len - i)") auto

text \<open>
  \<open>crypto.getRandomValues\<close> raises \<open>QuotaExceededError\<close> for an array of more than
  65536 bytes, four bytes an element. (A length that \<open>new Uint32Array\<close> cannot allocate
  fails one line earlier; the model has one failing branch for both.)
\<close>

definition generatePassword :: "nat \<Rightarrow> (nat \<Rightarrow> 32 word) \<Rightarrow> error + string" where
  "generatePassword len array =
     (if 65536 < 4 * len then Inl QuotaExceededError
      else Inr (generatePassword_loop 0 len array ''''))"


section \<open>The remote collection service as the pages see it\<close>

text \<open>The signed-in user of \<open>useAuthStore\<close>; \<open>null\<close> is \<open>None\<close>.\<close>

record user =
  uid :: string

text \<open>
  A Firestore \<open>Timestamp\<close>. Every time a page writes is a \<open>Date\<close>, a whole number of
  milliseconds, and the service stores it as the seconds and the nanoseconds of that
  \<open>Date\<close>: the timestamps of the documents are those of whole milliseconds, and the
  record holds the seconds and the milliseconds within the second. On them
  \<open>toMillis\<close>, \<open>seconds * 1000 + nanoseconds / 1e6\<close>, is a sum of two integers, and
  \<open>toDate\<close> is the \<open>Date\<close> of that many milliseconds. (A timestamp of a fraction of
  a millisecond, which no page writes, has no value in this type.)
\<close>

record timestamp =
  seconds :: int
  milliseconds :: int

definition nanoseconds :: "timestamp \<Rightarrow> int" where
  "nanoseconds t = milliseconds t * 1000000"

definition toDate :: "timestamp \<Rightarrow> date" where
  "toDate t = seconds t * 1000 + nanoseconds t div 1000000"

text \<open>\<open>Timestamp.fromDate\<close>, the conversion the service applies to a \<open>Date\<close> it stores.\<close>

definition fromDate :: "date \<Rightarrow> timestamp" where
  "fromDate ms = \<lparr>seconds = ms div 1000, milliseconds = ms mod 1000\<rparr>"

text \<open>
  The write operations a page issues: \<open>addDoc(collection(db, c), fields)\<close>,
  \<open>updateDoc(doc(db, c, key), patch)\<close> and \<open>deleteDoc(doc(db, c, key))\<close>. Whether the
  service acknowledges a call or rejects it is a parameter \<open>ok\<close> of every handler.
\<close>

datatype ('f, 'p) call =
  AddDoc string 'f
| UpdateDoc string string 'p
| DeleteDoc string string

datatype toast = Success string | Error string

text \<open>
  What one run of a handler leaves behind: the view state, the remote calls it issued,
  in order, and the notifications it raised.
\<close>

record ('s, 'c) outcome =
  state :: 's
  calls :: "'c list"
  toasts :: "toast list"

text \<open>
  The listener the \<open>useEffect\<close> of a page registers:
  \<open>query(collection(db, c), where('userId', '==', user.uid))\<close>.
\<close>

record listener =
  collection_name :: string
  owner :: string

record page =
  user :: "user option"

text \<open>
  The effect body shared by the pages, \<open>if (!user) return;\<close> and then \<open>onSnapshot\<close>:
  \<open>Inr None\<close> is the plain return with nothing registered, \<open>Inr (Some l)\<close> the return
  of a cleanup function for the listener \<open>l\<close>.
\<close>

definition subscribe :: "string \<Rightarrow> user option \<Rightarrow> error + listener option" where
  "subscribe c u =
     (case u of
        None \<Rightarrow> Inr None
      | Some usr \<Rightarrow> Inr (Some \<lparr>collection_name = c, owner = uid usr\<rparr>))"

section \<open>Todos page\<close>

text \<open>
  The fields of a document of \<open>todos\<close>; \<open>'t\<close> is the type of the creation time
  (a \<open>Date\<close> in what the page writes and holds, a \<open>Timestamp\<close> in what the service
  stores). \<open>order\<close> and \<open>createdAt\<close> may be missing from a stored document: the page
  reads them with \<open>|| 0\<close> and \<open>?.\<close>.
\<close>

record 't todo_fields =
  userId :: string
  text' :: string
  completed :: bool
  category :: string
  dueDate :: "string option"
  order :: "int option"
  createdAt :: "'t option"

record todo = "date todo_fields" +
  todo_id :: string

record todo_doc =
  doc_id :: string
  doc_data :: "timestamp todo_fields"

datatype todo_patch = Completed bool | Order int

type_synonym todo_call = "(date todo_fields, todo_patch) call"

record todos_state = page +
  todos :: "todo list"
  newTodo :: string
  newCategory :: string
  newDueDate :: string
  filterCategory :: string
  showCompleted :: bool

record dragEndEvent =
  active :: string
  over :: "string option"

definition useEffect_todos :: "todos_state \<Rightarrow> error + listener option" where
  "useEffect_todos s = subscribe ''todos'' (user s)"

text \<open>\<open>{ id: doc.id, ...doc.data(), createdAt: doc.data().createdAt?.toDate() }\<close>\<close>

definition toTodo :: "todo_doc \<Rightarrow> todo" where
  "toTodo d =
     \<lparr>userId = userId (doc_data d), text' = text' (doc_data d),
      completed = completed (doc_data d), category = category (doc_data d),
      dueDate = dueDate (doc_data d), order = order (doc_data d),
      createdAt = map_option toDate (createdAt (doc_data d)),
      todo_id = doc_id d\<rparr>"

text \<open>\<open>a.order || 0\<close>\<close>

definition order_key :: "todo \<Rightarrow> int" where
  "order_key t = (case order t of None \<Rightarrow> 0 | Some n \<Rightarrow> n)"

text \<open>
  The \<open>onSnapshot\<close> callback: map the documents, sort them by \<open>(a.order || 0) - (b.order || 0)\<close>
  (\<open>Array.prototype.sort\<close> is stable, as \<open>sort_key\<close> is), \<open>setTodos\<close>.
\<close>

definition onSnapshot_todos :: "todo_doc list \<Rightarrow> todos_state \<Rightarrow> todos_state" where
  "onSnapshot_todos docs s = s\<lparr>todos := sort_key order_key (map toTodo docs)\<rparr>"

definition handleAdd ::
  "(todo_call \<Rightarrow> bool) \<Rightarrow> date \<Rightarrow> todos_state \<Rightarrow> error + (todos_state, todo_call) outcome" where
  "handleAdd ok now s =
     (case user s of
        None \<Rightarrow> Inr \<lparr>state = s, calls = [], toasts = []\<rparr>
      | Some u \<Rightarrow>
          if trim (newTodo s) = [] then Inr \<lparr>state = s, calls = [], toasts = []\<rparr>
          else
            (let c = AddDoc ''todos''
                       \<lparr>userId = uid u, text' = trim (newTodo s), completed = False,
                        category = newCategory s,
                        dueDate = (if newDueDate s = [] then None else Some (newDueDate s)),
                        order = Some (int (length (todos s))),
                        createdAt = Some now\<rparr>
             in if ok c
                then Inr \<lparr>state = s\<lparr>newTodo := [], newDueDate := []\<rparr>, calls = [c],
                          toasts = [Success ''Task added'']\<rparr>
                else Inr \<lparr>state = s, calls = [c], toasts = [Error ''Failed to add task'']\<rparr>))"

definition toggleTodo ::
  "(todo_call \<Rightarrow> bool) \<Rightarrow> string \<Rightarrow> bool \<Rightarrow> todos_state
     \<Rightarrow> error + (todos_state, todo_call) outcome" where
  "toggleTodo ok k done s =
     (let c = UpdateDoc ''todos'' k (Completed (\<not> done))
      in if ok c then Inr \<lparr>state = s, calls = [c], toasts = []\<rparr>
         else Inr \<lparr>state = s, calls = [c], toasts = [Error ''Failed to update task'']\<rparr>)"

definition deleteTodo ::
  "(todo_call \<Rightarrow> bool) \<Rightarrow> string \<Rightarrow> todos_state \<Rightarrow> error + (todos_state, todo_call) outcome" where
  "deleteTodo ok k s =
     (let c = DeleteDoc ''todos'' k
      in if ok c then Inr \<lparr>state = s, calls = [c], toasts = [Success ''Task deleted'']\<rparr>
         else Inr \<lparr>state = s, calls = [c], toasts = [Error ''Failed to delete task'']\<rparr>)"

text \<open>\<open>newOrder.map((todo, index) => updateDoc(doc(db, 'todos', todo.id), { order: index }))\<close>\<close>

definition orderUpdates :: "todo list \<Rightarrow> todo_call list" where
  "orderUpdates newOrder =
     map (\<lambda>(index, t). UpdateDoc ''todos'' (todo_id t) (Order (int index))) (enumerate 0 newOrder)"

text \<open>
  \<open>handleDragEnd\<close>. All updates are issued before \<open>Promise.all\<close> is awaited, and one
  rejection rejects the whole. On an empty list \<open>arrayMove\<close> stores a list holding
  \<open>undefined\<close>: reading its \<open>id\<close> throws inside the \<open>try\<close> and the next render throws
  on its \<open>category\<close>; that run is \<open>Inl TypeError\<close>.
\<close>

definition handleDragEnd ::
  "(todo_call \<Rightarrow> bool) \<Rightarrow> dragEndEvent \<Rightarrow> todos_state
     \<Rightarrow> error + (todos_state, todo_call) outcome" where
  "handleDragEnd ok event s =
     (case over event of
        None \<Rightarrow> Inr \<lparr>state = s, calls = [], toasts = []\<rparr>
      | Some over_id \<Rightarrow>
          if active event = over_id then Inr \<lparr>state = s, calls = [], toasts = []\<rparr>
          else
            (let oldIndex = findIndex (\<lambda>t. todo_id t = active event) (todos s);
                 newIndex = findIndex (\<lambda>t. todo_id t = over_id) (todos s)
             in case arrayMove (todos s) oldIndex newIndex of
                  None \<Rightarrow> Inl TypeError
                | Some newOrder \<Rightarrow>
                    Inr \<lparr>state = s\<lparr>todos := newOrder\<rparr>,
                         calls = orderUpdates newOrder,
                         toasts = (if list_all ok (orderUpdates newOrder) then []
                                   else [Error ''Failed to reorder tasks''])\<rparr>))"

section \<open>Notes page\<close>

record 't note_fields =
  note_userId :: string
  title :: string
  content :: string
  tags :: "string list"
  note_createdAt :: "'t option"
  updatedAt :: "'t option"

record note_item = "date note_fields" +
  note_id :: string

record note_doc =
  note_doc_id :: string
  note_doc_data :: "timestamp note_fields"

text \<open>The patch of the edit branch: \<open>{ title, content, tags, updatedAt: new Date() }\<close>.\<close>

record note_patch =
  patch_title :: string
  patch_content :: string
  patch_tags :: "string list"
  patch_updatedAt :: date

type_synonym note_call = "(date note_fields, note_patch) call"

text \<open>The view state of the page; the \<open>form_\<close> fields are the dialog's form state.\<close>

record notes_state = page +
  notes' :: "note_item list"
  isDialogOpen :: bool
  editingId :: "string option"
  form_title :: string
  form_content :: string
  tagInput :: string
  form_tags :: "string list"

definition useEffect_notes :: "notes_state \<Rightarrow> error + listener option" where
  "useEffect_notes s = subscribe ''notes'' (user s)"

definition toNote :: "note_doc \<Rightarrow> note_item" where
  "toNote d =
     \<lparr>note_userId = note_userId (note_doc_data d), title = title (note_doc_data d),
      content = content (note_doc_data d), tags = tags (note_doc_data d),
      note_createdAt = map_option toDate (note_createdAt (note_doc_data d)),
      updatedAt = map_option toDate (updatedAt (note_doc_data d)),
      note_id = note_doc_id d\<rparr>"

text \<open>\<open>a.updatedAt?.getTime() || 0\<close>\<close>

definition updatedAt_key :: "note_item \<Rightarrow> int" where
  "updatedAt_key n = (case updatedAt n of None \<Rightarrow> 0 | Some d \<Rightarrow> d)"

text \<open>
  The \<open>onSnapshot\<close> callback of the notes: the comparator is
  \<open>(b.updatedAt?.getTime() || 0) - (a.updatedAt?.getTime() || 0)\<close>, the latest first.
\<close>

definition onSnapshot_notes :: "note_doc list \<Rightarrow> notes_state \<Rightarrow> notes_state" where
  "onSnapshot_notes docs s = s\<lparr>notes' := sort_key (\<lambda>n. - updatedAt_key n) (map toNote docs)\<rparr>"

definition resetForm :: "notes_state \<Rightarrow> notes_state" where
  "resetForm s =
     s\<lparr>form_title := [], form_content := [], form_tags := [], tagInput := [], editingId := None\<rparr>"

text \<open>
  \<open>if (editingId)\<close>: \<open>null\<close> and the empty string are falsy; \<open>Some k\<close> is the key
  the edit branch updates.
\<close>

definition editingKey :: "notes_state \<Rightarrow> string option" where
  "editingKey s =
     (case editingId s of None \<Rightarrow> None | Some k \<Rightarrow> if k = [] then None else Some k)"

text \<open>
  \<open>handleSubmit\<close> of the notes. \<open>now1\<close> and \<open>now2\<close> are the two readings of the client's
  clock, \<open>new Date()\<close>, in the order the object literal evaluates them.
\<close>

definition handleSubmit ::
  "(note_call \<Rightarrow> bool) \<Rightarrow> date \<Rightarrow> date \<Rightarrow> notes_state
     \<Rightarrow> error + (notes_state, note_call) outcome" where
  "handleSubmit ok now1 now2 s =
     (case user s of
        None \<Rightarrow> Inr \<lparr>state = s, calls = [], toasts = []\<rparr>
      | Some u \<Rightarrow>
          if form_title s = [] then Inr \<lparr>state = s, calls = [], toasts = []\<rparr>
          else
            (case editingKey s of
               Some k \<Rightarrow>
                 (let c = UpdateDoc ''notes'' k
                            \<lparr>patch_title = form_title s, patch_content = form_content s,
                             patch_tags = form_tags s, patch_updatedAt = now1\<rparr>
                  in if ok c
                     then Inr \<lparr>state = (resetForm s)\<lparr>isDialogOpen := False\<rparr>, calls = [c],
                               toasts = [Success ''Note updated'']\<rparr>
                     else Inr \<lparr>state = s, calls = [c],
                               toasts = [Error ''Failed to save note'']\<rparr>)
             | None \<Rightarrow>
                 (let c = AddDoc ''notes''
                            \<lparr>note_userId = uid u, title = form_title s,
                             content = form_content s, tags = form_tags s,
                             note_createdAt = Some now1, updatedAt = Some now2\<rparr>
                  in if ok c
                     then Inr \<lparr>state = (resetForm s)\<lparr>isDialogOpen := False\<rparr>, calls = [c],
                               toasts = [Success ''Note created'']\<rparr>
                     else Inr \<lparr>state = s, calls = [c],
                               toasts = [Error ''Failed to save note'']\<rparr>)))"

definition handleDelete ::
  "(note_call \<Rightarrow> bool) \<Rightarrow> string \<Rightarrow> notes_state \<Rightarrow> error + (notes_state, note_call) outcome" where
  "handleDelete ok k s =
     (let c = DeleteDoc ''notes'' k
      in if ok c then Inr \<lparr>state = s, calls = [c], toasts = [Success ''Note deleted'']\<rparr>
         else Inr \<lparr>state = s, calls = [c], toasts = [Error ''Failed to delete note'']\<rparr>)"

section \<open>Passwords page: the subscription\<close>

definition useEffect_passwords :: "user option \<Rightarrow> error + listener option" where
  "useEffect_passwords u = subscribe ''passwords'' u"

section \<open>A remote collection of todos to run the page against\<close>

text \<open>
  The service is outside the repository. This is the least remote that answers the
  three calls: the documents of \<open>todos\<close> in the order the service lists them, a created
  document stored under the key the service picks (with its \<open>Date\<close> as a \<open>Timestamp\<close>),
  an update applied to the document of that key, a delete removing it (a missing key
  changes nothing).
\<close>

definition stored :: "date todo_fields \<Rightarrow> timestamp todo_fields" where
  "stored f =
     \<lparr>userId = userId f, text' = text' f, completed = completed f, category = category f,
      dueDate = dueDate f, order = order f, createdAt = map_option fromDate (createdAt f)\<rparr>"

fun patched :: "todo_patch \<Rightarrow> timestamp todo_fields \<Rightarrow> timestamp todo_fields" where
  "patched (Completed b) f = f\<lparr>completed := b\<rparr>"
| "patched (Order n) f = f\<lparr>order := Some n\<rparr>"

fun remote_apply :: "string \<Rightarrow> todo_call \<Rightarrow> todo_doc list \<Rightarrow> todo_doc list" where
  "remote_apply key (AddDoc c f) r = r @ [\<lparr>doc_id = key, doc_data = stored f\<rparr>]"
| "remote_apply key (UpdateDoc c k p) r =
     map (\<lambda>d. if doc_id d = k then d\<lparr>doc_data := patched p (doc_data d)\<rparr> else d) r"
| "remote_apply key (DeleteDoc c k) r = filter (\<lambda>d. doc_id d \<noteq> k) r"

text \<open>A sequence of calls, each with the key the service would give a document it creates.\<close>

fun remote_run :: "(string \<times> todo_call) list \<Rightarrow> todo_doc list \<Rightarrow> todo_doc list" where
  "remote_run [] r = r"
| "remote_run ((key, c) # ops) r = remote_run ops (remote_apply key c r)"

text \<open>The documents a listener of owner \<open>u\<close> is sent: \<open>where('userId', '==', u)\<close>.\<close>

definition query_docs :: "string \<Rightarrow> todo_doc list \<Rightarrow> todo_doc list" where
  "query_docs u r = filter (\<lambda>d. userId (doc_data d) = u) r"

text \<open>
  One round trip of the page: the handler runs, its calls reach the remote (all
  acknowledged, a created document under \<open>key\<close>), and the next event is delivered to
  the page's listener. A run that ends in an exception has no next state.
\<close>

definition deliver :: "todo_doc list \<Rightarrow> todos_state \<Rightarrow> todos_state" where
  "deliver r s =
     (case useEffect_todos s of
        Inr (Some l) \<Rightarrow> onSnapshot_todos (query_docs (owner l) r) s
      | _ \<Rightarrow> s)"

definition round_trip ::
  "string \<Rightarrow> (todos_state \<Rightarrow> error + (todos_state, todo_call) outcome)
     \<Rightarrow> todos_state \<times> todo_doc list \<Rightarrow> (todos_state \<times> todo_doc list) option" where
  "round_trip key handler sr =
     (case handler (fst sr) of
        Inl e \<Rightarrow> None
      | Inr out \<Rightarrow>
          (let r' = remote_run (map (Pair key) (calls out)) (snd sr)
           in Some (deliver r' (state out), r')))"

definition add_task ::
  "string \<Rightarrow> string \<Rightarrow> todos_state \<times> todo_doc list
     \<Rightarrow> (todos_state \<times> todo_doc list) option" where
  "add_task txt key sr =
     round_trip key (\<lambda>s. handleAdd (\<lambda>c. True) 0 (s\<lparr>newTodo := txt\<rparr>)) sr"

definition delete_task ::
  "string \<Rightarrow> todos_state \<times> todo_doc list \<Rightarrow> (todos_state \<times> todo_doc list) option" where
  "delete_task k sr = round_trip [] (deleteTodo (\<lambda>c. True) k) sr"

definition drag_task ::
  "string \<Rightarrow> string \<Rightarrow> todos_state \<times> todo_doc list
     \<Rightarrow> (todos_state \<times> todo_doc list) option" where
  "drag_task a b sr =
     round_trip [] (handleDragEnd (\<lambda>c. True) \<lparr>active = a, over = Some b\<rparr>) sr"

section \<open>Concrete states used below\<close>

definition alice :: user where
  "alice = \<lparr>uid = ''alice''\<rparr>"

definition mk_todo :: "string \<Rightarrow> int \<Rightarrow> todo" where
  "mk_todo k n =
     \<lparr>userId = ''alice'', text' = k, completed = False, category = ''Personal'',
      dueDate = None, order = Some n, createdAt = Some 0, todo_id = k\<rparr>"

definition page0 :: todos_state where
  "page0 =
     \<lparr>user = Some alice, todos = [], newTodo = [], newCategory = ''Personal'',
      newDueDate = [], filterCategory = ''all'', showCompleted = True\<rparr>"

definition page_abcd :: todos_state where
  "page_abcd = page0\<lparr>todos := [mk_todo ''A'' 0, mk_todo ''B'' 1, mk_todo ''C'' 2, mk_todo ''D'' 3]\<rparr>"

definition notes0 :: notes_state where
  "notes0 =
     \<lparr>user = Some alice, notes' = [], isDialogOpen = True, editingId = None,
      form_title = [], form_content = [], tagInput = [], form_tags = []\<rparr>"

definition page_new :: todos_state where
  "page_new = page0\<lparr>newTodo := ''  buy milk ''\<rparr>"

definition notes_new :: notes_state where
  "notes_new = notes0\<lparr>form_title := ''t'', form_content := ''c''\<rparr>"

text \<open>
  A document with no order and no creation time, a document of another owner, and
  three notes, the second with no time of update.
\<close>

definition legacy_doc :: todo_doc where
  "legacy_doc =
     \<lparr>doc_id = ''k0'',
      doc_data = \<lparr>userId = ''alice'', text' = ''old'', completed = True, category = ''Work'',
                  dueDate = Some ''2024-01-01'', order = None, createdAt = None\<rparr>\<rparr>"

definition bob_doc :: todo_doc where
  "bob_doc =
     \<lparr>doc_id = ''k9'',
      doc_data = \<lparr>userId = ''bob'', text' = ''his'', completed = False, category = ''Work'',
                  dueDate = None, order = Some 0, createdAt = Some (fromDate 500)\<rparr>\<rparr>"

definition mk_note_doc :: "string \<Rightarrow> int option \<Rightarrow> note_doc" where
  "mk_note_doc k upd =
     \<lparr>note_doc_id = k,
      note_doc_data = \<lparr>note_userId = ''alice'', title = k, content = ''c'', tags = [''t''],
                       note_createdAt = Some (fromDate 1000),
                       updatedAt = map_option fromDate upd\<rparr>\<rparr>"

definition mk_note :: "string \<Rightarrow> int option \<Rightarrow> note_item" where
  "mk_note k upd =
     \<lparr>note_userId = ''alice'', title = k, content = ''c'', tags = [''t''],
      note_createdAt = Some 1000, updatedAt = upd, note_id = k\<rparr>"

definition note_docs3 :: "note_doc list" where
  "note_docs3 = [mk_note_doc ''n1'' (Some 1500), mk_note_doc ''n2'' None,
                 mk_note_doc ''n3'' (Some 3001)]"

text \<open>Two documents are created and their ranks are then exchanged.\<close>

definition ops_swap :: "(string \<times> todo_call) list" where
  "ops_swap =
     [(''k1'', AddDoc ''todos''
                 \<lparr>userId = ''alice'', text' = ''A'', completed = False, category = ''Personal'',
                  dueDate = None, order = Some 0, createdAt = Some 1000\<rparr>),
      (''k2'', AddDoc ''todos''
                 \<lparr>userId = ''alice'', text' = ''B'', completed = False, category = ''Personal'',
                  dueDate = None, order = Some 1, createdAt = Some 2000\<rparr>),
      ([], UpdateDoc ''todos'' ''k2'' (Order 0)),
      ([], UpdateDoc ''todos'' ''k1'' (Order 1))]"

text \<open>Two tasks are added, then the second is dragged onto the first.\<close>

definition scenario_reorder :: "(todos_state \<times> todo_doc list) option" where
  "scenario_reorder =
     Option.bind (Option.bind (add_task ''A'' ''k1'' (page0, [])) (add_task ''B'' ''k2''))
       (drag_task ''k2'' ''k1'')"

text \<open>Three tasks are added, the first is deleted, a fourth is added.\<close>

definition scenario_collision :: "(todos_state \<times> todo_doc list) option" where
  "scenario_collision =
     Option.bind
       (Option.bind
          (Option.bind (Option.bind (add_task ''A'' ''k1'' (page0, [])) (add_task ''B'' ''k2''))
             (add_task ''C'' ''k3''))
          (delete_task ''k1''))
       (add_task ''D'' ''k4'')"

section \<open>Passwords page: what \<open>generatePassword\<close> returns\<close>

declare generatePassword_loop.simps [simp del]






text \<open>Every length above 16384 makes the random source refuse the array.\<close>

lemma generatePassword_quota:
  "16384 < len \<Longrightarrow> generatePassword len array = Inl QuotaExceededError"
  by (simp add: generatePassword_def)


section \<open>Todos page: reordering\<close>

lemmas abcd_defs = page_abcd_def page0_def mk_todo_def alice_def

lemma findIndex_distinct:
  "distinct (map f xs) \<Longrightarrow> i < length xs \<Longrightarrow> findIndex (\<lambda>t. f t = f (xs ! i)) xs = int i"
proof (induction xs arbitrary: i)
  case Nil
  then show ?case by simp
next
  case (Cons x xs)
  show ?case
  proof (cases i)
    case 0
    then show ?thesis by simp
  next
    case (Suc k)
    with Cons.prems have k: "k < length xs" and d: "distinct (map f xs)"
      and nx: "f x \<notin> f ` set xs" by auto
    from k nx have "f x \<noteq> f (xs ! k)" by (metis imageI nth_mem)
    moreover have "findIndex (\<lambda>t. f t = f (xs ! k)) xs = int k"
      using Cons.IH [OF d k] .
    ultimately show ?thesis using Suc by (simp add: Let_def)
  qed
qed

lemma arrayMove_in_range:
  assumes "i < length xs" and "j < length xs"
  shows "arrayMove xs (int i) (int j) = Some (move_spec xs i j)"
  using assms by (simp add: arrayMove_def move_spec_def spliceStart_def Let_def min_def) arith

lemma orderUpdates_nth:
  "orderUpdates ys =
     map (\<lambda>k. UpdateDoc ''todos'' (todo_id (ys ! k)) (Order (int k))) [0..<length ys]"
  unfolding orderUpdates_def enumerate_eq_zip
  by (rule nth_equalityI) simp_all

lemma length_move_spec: "i < length xs \<Longrightarrow> length (move_spec xs i j) = length xs"
  unfolding move_spec_def Let_def
  by (simp only: length_append length_take length_drop list.size)

lemma mset_take_drop: "mset (take j ys) + mset (drop j ys) = mset ys"
  by (simp flip: mset_append)

lemma mset_move_spec:
  assumes "i < length xs"
  shows "mset (move_spec xs i j) = mset xs"
proof -
  let ?rest = "take i xs @ drop (Suc i) xs"
  have "mset (move_spec xs i j) = mset (take j ?rest) + mset (drop j ?rest) + {#xs ! i#}"
    by (simp add: move_spec_def)
  also have "\<dots> = mset ?rest + {#xs ! i#}"
    by (simp only: mset_take_drop)
  also have "\<dots> = mset (take i xs @ xs ! i # drop (Suc i) xs)"
    by simp
  also have "\<dots> = mset xs"
    using assms by (simp only: id_take_nth_drop [symmetric])
  finally show ?thesis .
qed

text \<open>
  The keys of a list the page holds are pairwise different whenever the documents of
  the event were, and a move keeps them so: the hypothesis of the reordering theorem
  holds in every state the page reaches.
\<close>

lemma todo_id_toTodo: "map todo_id (map toTodo docs) = map doc_id docs"
  by (simp add: toTodo_def)

lemma onSnapshot_todos_distinct:
  assumes "distinct (map doc_id docs)"
  shows "distinct (map todo_id (todos (onSnapshot_todos docs s)))"
proof -
  have "mset (map todo_id (sort_key order_key (map toTodo docs)))
          = mset (map todo_id (map toTodo docs))"
    by (metis mset_map mset_sort)
  then have "distinct (map todo_id (sort_key order_key (map toTodo docs)))
               = distinct (map doc_id docs)"
    unfolding todo_id_toTodo by (rule mset_eq_imp_distinct_iff)
  then show ?thesis
    using assms by (simp add: onSnapshot_todos_def)
qed

lemma move_spec_distinct:
  assumes "distinct (map f xs)" and "i < length xs"
  shows "distinct (map f (move_spec xs i j))"
proof -
  have "mset (map f (move_spec xs i j)) = mset (map f xs)"
    using mset_move_spec [OF assms(2)] by (metis mset_map)
  then have "distinct (map f (move_spec xs i j)) = distinct (map f xs)"
    by (rule mset_eq_imp_distinct_iff)
  then show ?thesis
    using assms(1) by simp
qed

text \<open>
  C1. For every list of todos (with the pairwise different keys of a snapshot) and
  every drag gesture that drops the entity at index \<open>i\<close> on the entity at index \<open>j\<close>,
  \<open>i \<noteq> j\<close>, both in bounds, \<open>handleDragEnd\<close> replaces the local list with the array
  move (remove at \<open>i\<close>, reinsert at \<open>j\<close>), whatever the remote answers, and issues
  exactly one update per position of the new list, the \<open>k\<close>-th setting only the order
  of the \<open>k\<close>-th entity to \<open>k\<close>; the new list holds the same entities.
\<close>

theorem handleDragEnd_reorders:
  assumes "distinct (map todo_id (todos s))" and "i < length (todos s)"
    and "j < length (todos s)" and "i \<noteq> j"
  shows "handleDragEnd ok
           \<lparr>active = todo_id (todos s ! i), over = Some (todo_id (todos s ! j))\<rparr> s =
           Inr \<lparr>state = s\<lparr>todos := move_spec (todos s) i j\<rparr>,
                calls = map (\<lambda>k. UpdateDoc ''todos'' (todo_id (move_spec (todos s) i j ! k))
                                   (Order (int k)))
                          [0..<length (todos s)],
                toasts = (if list_all ok
                               (map (\<lambda>k. UpdateDoc ''todos''
                                           (todo_id (move_spec (todos s) i j ! k)) (Order (int k)))
                                  [0..<length (todos s)])
                          then [] else [Error ''Failed to reorder tasks''])\<rparr>
         \<and> mset (move_spec (todos s) i j) = mset (todos s)"
proof -
  let ?xs = "todos s"
  have ne: "todo_id (?xs ! i) \<noteq> todo_id (?xs ! j)"
    using assms nth_eq_iff_index_eq [of "map todo_id (todos s)" i j] by simp
  have fi: "findIndex (\<lambda>t. todo_id t = todo_id (?xs ! i)) ?xs = int i"
    using assms(1,2) by (rule findIndex_distinct)
  have fj: "findIndex (\<lambda>t. todo_id t = todo_id (?xs ! j)) ?xs = int j"
    using assms(1,3) by (rule findIndex_distinct)
  have mv: "arrayMove ?xs (int i) (int j) = Some (move_spec ?xs i j)"
    using assms(2,3) by (rule arrayMove_in_range)
  have up: "orderUpdates (move_spec ?xs i j) =
      map (\<lambda>k. UpdateDoc ''todos'' (todo_id (move_spec ?xs i j ! k)) (Order (int k)))
        [0..<length ?xs]"
    using assms(2) by (simp add: orderUpdates_nth length_move_spec)
  show ?thesis
    using ne assms(2) by (simp add: handleDragEnd_def fi fj mv up mset_move_spec)
qed

text \<open>
  The list \<open>[A, B, C, D]\<close>, index 0 moved to index 2: the local order is
  \<open>[B, C, A, D]\<close> and the four updates are \<open>B:0\<close>, \<open>C:1\<close>, \<open>A:2\<close>, \<open>D:3\<close>.
\<close>

theorem handleDragEnd_reorders_witness:
  "distinct (map todo_id (todos page_abcd)) \<and> (0::nat) < length (todos page_abcd)
     \<and> (2::nat) < length (todos page_abcd) \<and> (0::nat) \<noteq> 2
     \<and> handleDragEnd (\<lambda>c. True) \<lparr>active = ''A'', over = Some ''C''\<rparr> page_abcd =
         Inr \<lparr>state = page_abcd\<lparr>todos := [mk_todo ''B'' 1, mk_todo ''C'' 2, mk_todo ''A'' 0,
                                            mk_todo ''D'' 3]\<rparr>,
              calls = [UpdateDoc ''todos'' ''B'' (Order 0), UpdateDoc ''todos'' ''C'' (Order 1),
                       UpdateDoc ''todos'' ''A'' (Order 2), UpdateDoc ''todos'' ''D'' (Order 3)],
              toasts = []\<rparr>"
proof -
  have h1: "distinct (map todo_id (todos page_abcd))" by (simp add: abcd_defs)
  have h2: "(0::nat) < length (todos page_abcd)" by (simp add: abcd_defs)
  have h3: "(2::nat) < length (todos page_abcd)" by (simp add: abcd_defs)
  have h4: "(0::nat) \<noteq> 2" by simp
  have e: "[0..<4] = [0, 1, 2, 3]" by (simp add: upt_rec)
  have t: "todos page_abcd = [mk_todo ''A'' 0, mk_todo ''B'' 1, mk_todo ''C'' 2, mk_todo ''D'' 3]"
    by (simp add: page_abcd_def)
  have m: "move_spec (todos page_abcd) 0 2 =
             [mk_todo ''B'' 1, mk_todo ''C'' 2, mk_todo ''A'' 0, mk_todo ''D'' 3]"
    by (simp add: t move_spec_def)
  have i: "todo_id (mk_todo k n) = k" for k n by (simp add: mk_todo_def)
  show ?thesis
    using handleDragEnd_reorders [OF h1 h2 h3 h4, of "\<lambda>c. True"] h1 h2 h3
    unfolding m by (simp add: t e i)
qed

text \<open>
  C7. Whenever \<open>handleDragEnd\<close> issues a batch of order updates of which at least one
  is rejected, it raises exactly one notification, \<open>Failed to reorder tasks\<close>, and the
  list it leaves is the moved list the updates were computed from, not the list
  before the gesture.
\<close>

theorem handleDragEnd_failure_keeps_optimistic:
  assumes "handleDragEnd ok event s = Inr out" and "\<not> list_all ok (calls out)"
  shows "toasts out = [Error ''Failed to reorder tasks'']
         \<and> (\<exists>b. over event = Some b \<and> active event \<noteq> b
              \<and> arrayMove (todos s) (findIndex (\<lambda>t. todo_id t = active event) (todos s))
                   (findIndex (\<lambda>t. todo_id t = b) (todos s)) = Some (todos (state out)))
         \<and> calls out = orderUpdates (todos (state out))"
  using assms
  by (auto simp: handleDragEnd_def Let_def split: option.splits if_splits)

theorem handleDragEnd_failure_keeps_optimistic_witness:
  "handleDragEnd (\<lambda>c. c \<noteq> UpdateDoc ''todos'' ''A'' (Order 2))
     \<lparr>active = ''A'', over = Some ''C''\<rparr> page_abcd =
     Inr \<lparr>state = page_abcd\<lparr>todos := [mk_todo ''B'' 1, mk_todo ''C'' 2, mk_todo ''A'' 0,
                                        mk_todo ''D'' 3]\<rparr>,
          calls = [UpdateDoc ''todos'' ''B'' (Order 0), UpdateDoc ''todos'' ''C'' (Order 1),
                   UpdateDoc ''todos'' ''A'' (Order 2), UpdateDoc ''todos'' ''D'' (Order 3)],
          toasts = [Error ''Failed to reorder tasks'']\<rparr>
   \<and> \<not> list_all (\<lambda>c. c \<noteq> UpdateDoc ''todos'' ''A'' (Order 2))
         [UpdateDoc ''todos'' ''B'' (Order 0), UpdateDoc ''todos'' ''C'' (Order 1),
          UpdateDoc ''todos'' ''A'' (Order 2), UpdateDoc ''todos'' ''D'' (Order 3)]
   \<and> todos page_abcd \<noteq> [mk_todo ''B'' 1, mk_todo ''C'' 2, mk_todo ''A'' 0, mk_todo ''D'' 3]"
proof -
  let ?ok = "\<lambda>c. c \<noteq> UpdateDoc ''todos'' ''A'' (Order 2)"
  let ?new = "[mk_todo ''B'' 1, mk_todo ''C'' 2, mk_todo ''A'' 0, mk_todo ''D'' 3]"
  let ?calls = "[UpdateDoc ''todos'' ''B'' (Order 0), UpdateDoc ''todos'' ''C'' (Order 1),
                   UpdateDoc ''todos'' ''A'' (Order 2), UpdateDoc ''todos'' ''D'' (Order 3)]"
  let ?ev = "\<lparr>active = ''A'', over = Some ''C''\<rparr>"
  have t: "todos page_abcd = [mk_todo ''A'' 0, mk_todo ''B'' 1, mk_todo ''C'' 2, mk_todo ''D'' 3]"
    by (simp add: page_abcd_def)
  have i: "todo_id (mk_todo k n) = k" for k n by (simp add: mk_todo_def)
  have mv: "arrayMove [mk_todo ''A'' 0, mk_todo ''B'' 1, mk_todo ''C'' 2, mk_todo ''D'' 3] 0 2
              = Some ?new"
    by (simp add: arrayMove_def spliceStart_def)
  have up: "orderUpdates ?new = ?calls"
    by (simp add: orderUpdates_def enumerate_eq_zip upt_rec i)
  define ts where "ts = (if list_all ?ok ?calls then [] else [Error ''Failed to reorder tasks''])"
  have run: "handleDragEnd ?ok ?ev page_abcd =
               Inr \<lparr>state = page_abcd\<lparr>todos := ?new\<rparr>, calls = ?calls, toasts = ts\<rparr>"
    unfolding ts_def by (simp add: handleDragEnd_def t i mv up)
  have bad: "\<not> list_all ?ok
                 (calls \<lparr>state = page_abcd\<lparr>todos := ?new\<rparr>, calls = ?calls, toasts = ts\<rparr>)"
    by simp
  from handleDragEnd_failure_keeps_optimistic [OF run bad]
  have "ts = [Error ''Failed to reorder tasks'']" by simp
  with run show ?thesis by (simp add: t mk_todo_def)
qed

text \<open>
  C9. For every list of todos, a gesture whose drop target is the dragged entity
  itself (an index moved to itself) issues no remote call, raises no notification and
  leaves the page, the list with it, as it was.
\<close>

theorem handleDragEnd_same_target:
  "handleDragEnd ok \<lparr>active = a, over = Some a\<rparr> s = Inr \<lparr>state = s, calls = [], toasts = []\<rparr>"
  by (simp add: handleDragEnd_def)

theorem handleDragEnd_same_target_witness:
  "handleDragEnd (\<lambda>c. True)
     \<lparr>active = todo_id (todos page_abcd ! 1), over = Some (todo_id (todos page_abcd ! 1))\<rparr>
     page_abcd = Inr \<lparr>state = page_abcd, calls = [], toasts = []\<rparr>
   \<and> todo_id (todos page_abcd ! 1) = ''B''"
  using handleDragEnd_same_target [of "\<lambda>c. True" "todo_id (todos page_abcd ! 1)" page_abcd]
  by (simp add: abcd_defs)

section \<open>Create, update and delete\<close>

text \<open>
  C8. Every run of a create, update or delete handler, acknowledged or rejected by the
  remote, returns with the list of entities of its page exactly as it was: \<open>handleAdd\<close>,
  \<open>toggleTodo\<close> and \<open>deleteTodo\<close> leave \<open>todos\<close>, \<open>handleSubmit\<close> (create and edit) and
  \<open>handleDelete\<close> leave the notes.
\<close>

theorem mutations_leave_snapshot:
  "(\<exists>out. handleAdd ok now s = Inr out \<and> todos (state out) = todos s)
   \<and> (\<exists>out. toggleTodo ok k done s = Inr out \<and> todos (state out) = todos s)
   \<and> (\<exists>out. deleteTodo ok k s = Inr out \<and> todos (state out) = todos s)
   \<and> (\<exists>out. handleSubmit okn now1 now2 ns = Inr out \<and> notes' (state out) = notes' ns)
   \<and> (\<exists>out. handleDelete okn k ns = Inr out \<and> notes' (state out) = notes' ns)"
proof -
  have a: "\<exists>out. handleAdd ok now s = Inr out \<and> todos (state out) = todos s"
    by (simp add: handleAdd_def Let_def split: option.split)
  have b: "\<exists>out. toggleTodo ok k done s = Inr out \<and> todos (state out) = todos s"
    by (simp add: toggleTodo_def Let_def)
  have c: "\<exists>out. deleteTodo ok k s = Inr out \<and> todos (state out) = todos s"
    by (simp add: deleteTodo_def Let_def)
  have d: "\<exists>out. handleSubmit okn now1 now2 ns = Inr out \<and> notes' (state out) = notes' ns"
    by (simp add: handleSubmit_def resetForm_def Let_def split: option.split)
  have e: "\<exists>out. handleDelete okn k ns = Inr out \<and> notes' (state out) = notes' ns"
    by (simp add: handleDelete_def Let_def)
  from a b c d e show ?thesis by blast
qed

text \<open>A task is added to \<open>[A, B, C, D]\<close> and acknowledged: the list is still \<open>[A, B, C, D]\<close>.\<close>

theorem mutations_leave_snapshot_witness:
  "(\<exists>out. handleAdd (\<lambda>c. True) 1000 (page_abcd\<lparr>newTodo := ''E''\<rparr>) = Inr out
          \<and> todos (state out) = [mk_todo ''A'' 0, mk_todo ''B'' 1, mk_todo ''C'' 2, mk_todo ''D'' 3]
          \<and> length (calls out) = 1)
   \<and> (\<exists>out. deleteTodo (\<lambda>c. False) ''A'' page_abcd = Inr out
          \<and> todos (state out) = [mk_todo ''A'' 0, mk_todo ''B'' 1, mk_todo ''C'' 2, mk_todo ''D'' 3])"
proof -
  have t: "todos (page_abcd\<lparr>newTodo := ''E''\<rparr>) =
             [mk_todo ''A'' 0, mk_todo ''B'' 1, mk_todo ''C'' 2, mk_todo ''D'' 3]"
    "todos page_abcd = [mk_todo ''A'' 0, mk_todo ''B'' 1, mk_todo ''C'' 2, mk_todo ''D'' 3]"
    by (simp_all add: page_abcd_def)
  have n: "\<And>out. handleAdd (\<lambda>c. True) 1000 (page_abcd\<lparr>newTodo := ''E''\<rparr>) = Inr out
             \<Longrightarrow> length (calls out) = 1"
    by (auto simp: handleAdd_def abcd_defs trim_def isSpace_def)
  from mutations_leave_snapshot
         [where ok = "\<lambda>c. True" and now = 1000 and s = "page_abcd\<lparr>newTodo := ''E''\<rparr>"]
  obtain o1 where o1: "handleAdd (\<lambda>c. True) 1000 (page_abcd\<lparr>newTodo := ''E''\<rparr>) = Inr o1"
    "todos (state o1) = todos (page_abcd\<lparr>newTodo := ''E''\<rparr>)" by blast
  from mutations_leave_snapshot [where ok = "\<lambda>c. False" and k = "''A''" and s = page_abcd]
  obtain o2 where o2: "deleteTodo (\<lambda>c. False) ''A'' page_abcd = Inr o2"
    "todos (state o2) = todos page_abcd" by blast
  from o1 o2 n [OF o1(1)] show ?thesis unfolding t by simp
qed

text \<open>
  C5, as the code has it. A create with an empty required field (an empty task text,
  an empty note title) performs no remote call and returns normally: nothing is
  raised, nothing is notified, the page is as it was.
\<close>

theorem create_empty_field_returns_silently:
  "(newTodo s = [] \<longrightarrow> handleAdd ok now s = Inr \<lparr>state = s, calls = [], toasts = []\<rparr>)
   \<and> (form_title ns = [] \<longrightarrow>
        handleSubmit okn now1 now2 ns = Inr \<lparr>state = ns, calls = [], toasts = []\<rparr>)"
  by (simp add: handleAdd_def handleSubmit_def trim_def split: option.split)

theorem create_empty_field_returns_silently_witness:
  "newTodo page_abcd = []
   \<and> handleAdd (\<lambda>c. True) 0 page_abcd = Inr \<lparr>state = page_abcd, calls = [], toasts = []\<rparr>
   \<and> form_title notes0 = []
   \<and> handleSubmit (\<lambda>c. True) 0 0 notes0 = Inr \<lparr>state = notes0, calls = [], toasts = []\<rparr>"
proof -
  have h1: "newTodo page_abcd = []" by (simp add: abcd_defs)
  have h2: "form_title notes0 = []" by (simp add: notes0_def)
  from create_empty_field_returns_silently
         [where s = page_abcd and ok = "\<lambda>c. True" and now = 0
            and ns = notes0 and okn = "\<lambda>c. True" and ?now1.0 = 0 and ?now2.0 = 0] h1 h2
  show ?thesis by simp
qed

text \<open>
  The claim says such a create fails with a validation error. With a signed-in user
  and an empty text, or an empty title, the handler returns and no failure is raised
  or notified.
\<close>

theorem create_empty_field_counterexample:
  "handleAdd (\<lambda>c. True) 0 page0 = Inr \<lparr>state = page0, calls = [], toasts = []\<rparr>
   \<and> \<not> isl (handleAdd (\<lambda>c. True) 0 page0)
   \<and> handleSubmit (\<lambda>c. True) 0 0 notes0 = Inr \<lparr>state = notes0, calls = [], toasts = []\<rparr>
   \<and> \<not> isl (handleSubmit (\<lambda>c. True) 0 0 notes0)"
  by (simp add: handleAdd_def handleSubmit_def trim_def page0_def notes0_def)

text \<open>
  C4, as the code has it. A create with a signed-in user and its required field
  present (a task text that is not empty once trimmed, a note title that is not empty)
  issues exactly one remote create, which carries the owner, the payload and a creation
  time read from the client's clock; the success notification and the reset of the form
  follow the remote's acknowledgement, a rejection gives the failure notification.
\<close>

theorem create_issues_one_call_with_client_time:
  "(user s = Some u \<and> trim (newTodo s) \<noteq> [] \<longrightarrow>
      (\<exists>c. c = AddDoc ''todos''
                 \<lparr>userId = uid u, text' = trim (newTodo s), completed = False,
                  category = newCategory s,
                  dueDate = (if newDueDate s = [] then None else Some (newDueDate s)),
                  order = Some (int (length (todos s))), createdAt = Some now\<rparr>
            \<and> handleAdd ok now s =
                Inr \<lparr>state = (if ok c then s\<lparr>newTodo := [], newDueDate := []\<rparr> else s),
                     calls = [c],
                     toasts = [if ok c then Success ''Task added''
                               else Error ''Failed to add task'']\<rparr>))
   \<and> (user ns = Some u \<and> form_title ns \<noteq> [] \<and> editingKey ns = None \<longrightarrow>
      (\<exists>c. c = AddDoc ''notes''
                 \<lparr>note_userId = uid u, title = form_title ns, content = form_content ns,
                  tags = form_tags ns, note_createdAt = Some now1, updatedAt = Some now2\<rparr>
            \<and> handleSubmit okn now1 now2 ns =
                Inr \<lparr>state = (if okn c then (resetForm ns)\<lparr>isDialogOpen := False\<rparr> else ns),
                     calls = [c],
                     toasts = [if okn c then Success ''Note created''
                               else Error ''Failed to save note'']\<rparr>))"
  by (simp add: handleAdd_def handleSubmit_def Let_def)

theorem create_issues_one_call_with_client_time_witness:
  "user page_new = Some alice \<and> trim (newTodo page_new) \<noteq> []
   \<and> handleAdd (\<lambda>c. True) 1000 page_new =
       Inr \<lparr>state = page0,
            calls = [AddDoc ''todos''
                      \<lparr>userId = ''alice'', text' = ''buy milk'', completed = False,
                       category = ''Personal'', dueDate = None, order = Some 0,
                       createdAt = Some 1000\<rparr>],
            toasts = [Success ''Task added'']\<rparr>
   \<and> user notes_new = Some alice \<and> form_title notes_new \<noteq> [] \<and> editingKey notes_new = None
   \<and> handleSubmit (\<lambda>c. False) 1000 1001 notes_new =
       Inr \<lparr>state = notes_new,
            calls = [AddDoc ''notes''
                      \<lparr>note_userId = ''alice'', title = ''t'', content = ''c'', tags = [],
                       note_createdAt = Some 1000, updatedAt = Some 1001\<rparr>],
            toasts = [Error ''Failed to save note'']\<rparr>"
proof -
  have h1: "user page_new = Some alice \<and> trim (newTodo page_new) \<noteq> []"
    by (simp add: page_new_def page0_def trim_def isSpace_def)
  have h2: "user notes_new = Some alice \<and> form_title notes_new \<noteq> []
              \<and> editingKey notes_new = None"
    by (simp add: notes_new_def notes0_def editingKey_def)
  have t: "trim (newTodo page_new) = ''buy milk''"
    by (simp add: page_new_def page0_def trim_def isSpace_def)
  from create_issues_one_call_with_client_time
         [where s = page_new and u = alice and ok = "\<lambda>c. True" and now = 1000
            and ns = notes_new and okn = "\<lambda>c. False" and ?now1.0 = 1000 and ?now2.0 = 1001]
       h1 h2
  show ?thesis
    by (simp add: t) (simp add: page_new_def notes_new_def page0_def notes0_def alice_def)
qed

text \<open>
  The claim says the creation time is assigned by the remote service and that a field
  that is not empty is enough. The same create run at two readings of the client's
  clock issues two different calls, the time in the call being the reading; and a text
  of one space, with the user signed in, issues no call.
\<close>

theorem create_server_timestamp_counterexample:
  "handleAdd (\<lambda>c. True) 1000 page_new \<noteq> handleAdd (\<lambda>c. True) 2000 page_new
   \<and> map_sum id calls (handleAdd (\<lambda>c. True) 1000 page_new) =
       Inr [AddDoc ''todos''
              \<lparr>userId = ''alice'', text' = ''buy milk'', completed = False,
               category = ''Personal'', dueDate = None, order = Some 0,
               createdAt = Some 1000\<rparr>]
   \<and> map_sum id calls (handleAdd (\<lambda>c. True) 1000 (page0\<lparr>newTodo := '' ''\<rparr>)) = Inr []"
  by (simp add: handleAdd_def page_new_def page0_def trim_def isSpace_def alice_def)

section \<open>Subscriptions\<close>

text \<open>
  C6, as the code has it. With no signed-in user the effect of a page returns at once:
  it registers no listener and raises nothing.
\<close>

theorem subscribe_without_owner_returns:
  "useEffect_todos (s\<lparr>user := None\<rparr>) = Inr None
   \<and> useEffect_notes (ns\<lparr>user := None\<rparr>) = Inr None
   \<and> useEffect_passwords None = Inr None"
  by (simp add: useEffect_todos_def useEffect_notes_def useEffect_passwords_def subscribe_def)

theorem subscribe_without_owner_returns_witness:
  "useEffect_todos (page_abcd\<lparr>user := None\<rparr>) = Inr None
   \<and> useEffect_notes (notes0\<lparr>user := None\<rparr>) = Inr None
   \<and> useEffect_passwords None = Inr None
   \<and> useEffect_todos page_abcd = Inr (Some \<lparr>collection_name = ''todos'', owner = ''alice''\<rparr>)"
  using subscribe_without_owner_returns [where s = page_abcd and ns = notes0]
  by (simp add: useEffect_todos_def subscribe_def abcd_defs)

text \<open>The claim says the subscription fails; it returns, having done nothing.\<close>

theorem subscribe_without_owner_counterexample:
  "useEffect_todos (page0\<lparr>user := None\<rparr>) = Inr None
   \<and> \<not> isl (useEffect_todos (page0\<lparr>user := None\<rparr>))
   \<and> useEffect_passwords None = Inr None \<and> \<not> isl (useEffect_passwords None)"
  by (simp add: useEffect_todos_def useEffect_passwords_def subscribe_def)

lemma toDate_millis: "toDate t = seconds t * 1000 + milliseconds t"
  by (simp add: toDate_def nanoseconds_def)

lemma toDate_fromDate: "toDate (fromDate ms) = ms"
  by (simp add: toDate_millis fromDate_def)

text \<open>
  The mapping and the two sort keys of the callbacks, written out: every field of the
  document is kept, the key of the document is the key of the entity, each time is
  decoded to its milliseconds, a missing order and a missing time of update are
  read as 0.
\<close>

lemma toTodo_fields:
  "toTodo =
     (\<lambda>d. \<lparr>userId = userId (doc_data d), text' = text' (doc_data d),
            completed = completed (doc_data d), category = category (doc_data d),
            dueDate = dueDate (doc_data d), order = order (doc_data d),
            createdAt = map_option (\<lambda>t. seconds t * 1000 + milliseconds t)
                          (createdAt (doc_data d)),
            todo_id = doc_id d\<rparr>)"
  by (rule ext) (simp add: toTodo_def toDate_millis [abs_def])

lemma order_key_cases: "order_key = (\<lambda>t. case order t of None \<Rightarrow> 0 | Some n \<Rightarrow> n)"
  by (rule ext) (simp add: order_key_def)

lemma toNote_fields:
  "toNote =
     (\<lambda>d. \<lparr>note_userId = note_userId (note_doc_data d), title = title (note_doc_data d),
            content = content (note_doc_data d), tags = tags (note_doc_data d),
            note_createdAt = map_option (\<lambda>t. seconds t * 1000 + milliseconds t)
                               (note_createdAt (note_doc_data d)),
            updatedAt = map_option (\<lambda>t. seconds t * 1000 + milliseconds t)
                          (updatedAt (note_doc_data d)),
            note_id = note_doc_id d\<rparr>)"
  by (rule ext) (simp add: toNote_def toDate_millis [abs_def])

lemma updatedAt_key_cases:
  "updatedAt_key = (\<lambda>n. case updatedAt n of None \<Rightarrow> 0 | Some d \<Rightarrow> d)"
  by (rule ext) (simp add: updatedAt_key_def)

lemma sorted_descending:
  fixes f :: "'a \<Rightarrow> int"
  shows "sorted_wrt (\<lambda>a b. f b \<le> f a) (sort_key (\<lambda>x. - f x) xs)"
proof -
  have "sorted (map (\<lambda>x. - f x) (sort_key (\<lambda>x. - f x) xs))"
    by (rule sorted_sort_key)
  then show ?thesis
    by (simp add: sorted_map)
qed

lemma stored_round_trip:
  "toTodo \<lparr>doc_id = k, doc_data = stored f\<rparr> =
     \<lparr>userId = userId f, text' = text' f, completed = completed f, category = category f,
      dueDate = dueDate f, order = order f, createdAt = createdAt f, todo_id = k\<rparr>"
  by (cases "createdAt f") (simp_all add: toTodo_def stored_def toDate_fromDate)

text \<open>
  C2, as the code has it. After any sequence of creates, updates and deletes on the
  remote, the event delivered next replaces the list of the page, whatever it was, with
  the documents of the event mapped into the local shape (the key, every field, the
  creation time decoded) and then sorted: the todos by ascending order, a missing order
  read as 0, the notes by descending time of update, a missing one read as 0, documents
  of equal key in the sequence of the event. The list holds exactly the entities of the
  event, in the sorted sequence and not the remote's; a document created from fields
  comes back as those fields under its key, with the date that was written.
\<close>

theorem snapshot_event_replaces_with_sorted_list:
  "(let D = query_docs u (remote_run ops r);
        L = todos (onSnapshot_todos D s);
        key = (\<lambda>t. case order t of None \<Rightarrow> 0 | Some n \<Rightarrow> n);
        M = map (\<lambda>d. \<lparr>userId = userId (doc_data d), text' = text' (doc_data d),
                       completed = completed (doc_data d), category = category (doc_data d),
                       dueDate = dueDate (doc_data d), order = order (doc_data d),
                       createdAt = map_option (\<lambda>t. seconds t * 1000 + milliseconds t)
                                     (createdAt (doc_data d)),
                       todo_id = doc_id d\<rparr>) D
    in L = sort_key key M \<and> mset L = mset M \<and> sorted (map key L)
       \<and> filter (\<lambda>t. key t = n) L = filter (\<lambda>t. key t = n) M
       \<and> L = todos (onSnapshot_todos D s'))
   \<and> todos (onSnapshot_todos [\<lparr>doc_id = k, doc_data = stored f\<rparr>] s) =
       [\<lparr>userId = userId f, text' = text' f, completed = completed f, category = category f,
         dueDate = dueDate f, order = order f, createdAt = createdAt f, todo_id = k\<rparr>]
   \<and> (let N = notes' (onSnapshot_notes ndocs ns);
           key = (\<lambda>n. case updatedAt n of None \<Rightarrow> 0 | Some d \<Rightarrow> d);
           M = map (\<lambda>d. \<lparr>note_userId = note_userId (note_doc_data d),
                          title = title (note_doc_data d), content = content (note_doc_data d),
                          tags = tags (note_doc_data d),
                          note_createdAt = map_option (\<lambda>t. seconds t * 1000 + milliseconds t)
                                             (note_createdAt (note_doc_data d)),
                          updatedAt = map_option (\<lambda>t. seconds t * 1000 + milliseconds t)
                                        (updatedAt (note_doc_data d)),
                          note_id = note_doc_id d\<rparr>) ndocs
       in N = sort_key (\<lambda>n. - key n) M \<and> mset N = mset M
          \<and> sorted_wrt (\<lambda>a b. key b \<le> key a) N
          \<and> filter (\<lambda>n. key n = m) N = filter (\<lambda>n. key n = m) M
          \<and> N = notes' (onSnapshot_notes ndocs ns'))"
proof -
  have a: "todos (onSnapshot_todos D s) = sort_key order_key (map toTodo D)" for D s
    by (simp add: onSnapshot_todos_def)
  have b: "notes' (onSnapshot_notes D ns) = sort_key (\<lambda>n. - updatedAt_key n) (map toNote D)"
    for D ns
    by (simp add: onSnapshot_notes_def)
  have sn: "filter (\<lambda>x. updatedAt_key x = m) (sort_key (\<lambda>x. - updatedAt_key x) xs)
              = filter (\<lambda>x. updatedAt_key x = m) xs" for xs
    using sort_key_stable [of "\<lambda>x. - updatedAt_key x" "- m" xs] by simp
  have code:
    "(todos (onSnapshot_todos (query_docs u (remote_run ops r)) s)
        = sort_key order_key (map toTodo (query_docs u (remote_run ops r)))
      \<and> mset (todos (onSnapshot_todos (query_docs u (remote_run ops r)) s))
          = mset (map toTodo (query_docs u (remote_run ops r)))
      \<and> sorted (map order_key (todos (onSnapshot_todos (query_docs u (remote_run ops r)) s)))
      \<and> filter (\<lambda>t. order_key t = n)
            (todos (onSnapshot_todos (query_docs u (remote_run ops r)) s))
          = filter (\<lambda>t. order_key t = n) (map toTodo (query_docs u (remote_run ops r)))
      \<and> todos (onSnapshot_todos (query_docs u (remote_run ops r)) s)
          = todos (onSnapshot_todos (query_docs u (remote_run ops r)) s'))
     \<and> todos (onSnapshot_todos [\<lparr>doc_id = k, doc_data = stored f\<rparr>] s) =
         [\<lparr>userId = userId f, text' = text' f, completed = completed f,
           category = category f, dueDate = dueDate f, order = order f,
           createdAt = createdAt f, todo_id = k\<rparr>]
     \<and> (notes' (onSnapshot_notes ndocs ns)
          = sort_key (\<lambda>n. - updatedAt_key n) (map toNote ndocs)
        \<and> mset (notes' (onSnapshot_notes ndocs ns)) = mset (map toNote ndocs)
        \<and> sorted_wrt (\<lambda>a b. updatedAt_key b \<le> updatedAt_key a)
             (notes' (onSnapshot_notes ndocs ns))
        \<and> filter (\<lambda>n. updatedAt_key n = m) (notes' (onSnapshot_notes ndocs ns))
            = filter (\<lambda>n. updatedAt_key n = m) (map toNote ndocs)
        \<and> notes' (onSnapshot_notes ndocs ns) = notes' (onSnapshot_notes ndocs ns'))"
    unfolding a b
    by (simp add: sort_key_stable sn sorted_descending stored_round_trip)
  from code show ?thesis
    unfolding Let_def toTodo_fields order_key_cases toNote_fields updatedAt_key_cases .
qed


text \<open>
  The remote holds a document of \<open>alice\<close> with no order and no time and a document
  of \<open>bob\<close>; two documents are created with orders 0 and 1 (at the client times 1000 and
  2000) and their orders are exchanged. The page of \<open>alice\<close> lists the document with
  no order first, then the second, then the first, each field and date as written.
  Of three notes updated at 1500, never and 3001, the page lists the third, the first,
  the second.
\<close>

theorem snapshot_event_replaces_with_sorted_list_witness:
  "todos (onSnapshot_todos (query_docs ''alice'' (remote_run ops_swap [legacy_doc, bob_doc]))
            page_abcd) =
     [\<lparr>userId = ''alice'', text' = ''old'', completed = True, category = ''Work'',
       dueDate = Some ''2024-01-01'', order = None, createdAt = None, todo_id = ''k0''\<rparr>,
      \<lparr>userId = ''alice'', text' = ''B'', completed = False, category = ''Personal'',
       dueDate = None, order = Some 0, createdAt = Some 2000, todo_id = ''k2''\<rparr>,
      \<lparr>userId = ''alice'', text' = ''A'', completed = False, category = ''Personal'',
       dueDate = None, order = Some 1, createdAt = Some 1000, todo_id = ''k1''\<rparr>]
   \<and> notes' (onSnapshot_notes note_docs3 notes_new) =
       [mk_note ''n3'' (Some 3001), mk_note ''n1'' (Some 1500), mk_note ''n2'' None]"
proof -
  note th = snapshot_event_replaces_with_sorted_list
              [where u = "''alice''" and ops = ops_swap and r = "[legacy_doc, bob_doc]"
                 and s = page_abcd and ndocs = note_docs3 and ns = notes_new,
               unfolded Let_def]
  have a: "todos (onSnapshot_todos
                    (query_docs ''alice'' (remote_run ops_swap [legacy_doc, bob_doc])) page_abcd) =
     [\<lparr>userId = ''alice'', text' = ''old'', completed = True, category = ''Work'',
       dueDate = Some ''2024-01-01'', order = None, createdAt = None, todo_id = ''k0''\<rparr>,
      \<lparr>userId = ''alice'', text' = ''B'', completed = False, category = ''Personal'',
       dueDate = None, order = Some 0, createdAt = Some 2000, todo_id = ''k2''\<rparr>,
      \<lparr>userId = ''alice'', text' = ''A'', completed = False, category = ''Personal'',
       dueDate = None, order = Some 1, createdAt = Some 1000, todo_id = ''k1''\<rparr>]"
    by (rule trans [OF th [THEN conjunct1, THEN conjunct1]]) code_simp
  have b: "notes' (onSnapshot_notes note_docs3 notes_new) =
       [mk_note ''n3'' (Some 3001), mk_note ''n1'' (Some 1500), mk_note ''n2'' None]"
    by (rule trans [OF th [THEN conjunct2, THEN conjunct2, THEN conjunct1]]) code_simp
  from a b show ?thesis by (rule conjI)
qed


text \<open>
  The claim says the list of the page equals the list of the event, mapped. After two
  tasks are added and the second is dragged onto the first, the remote lists the
  documents \<open>k1\<close>, \<open>k2\<close> and the page, after the event, holds \<open>k2\<close>, \<open>k1\<close>.
\<close>

theorem snapshot_equals_remote_counterexample:
  "map_option
     (\<lambda>(s, r). (map todo_id (todos s), map todo_id (map toTodo (query_docs ''alice'' r))))
     scenario_reorder = Some ([''k2'', ''k1''], [''k1'', ''k2''])
   \<and> map_option (\<lambda>(s, r). todos s = map toTodo (query_docs ''alice'' r)) scenario_reorder
       = Some False"
  by code_simp

section \<open>Todos page: the order values at rest\<close>

text \<open>
  C3 says that at rest, after reconciliation, the order values of the todos are
  pairwise different. \<open>handleAdd\<close> gives a new task the order \<open>todos.length\<close>: after
  three tasks are added, the first is deleted and a fourth is added, each step
  acknowledged and followed by its event, the page holds the orders 1, 2 and 2.
\<close>

theorem handleAdd_order_collision:
  "map_option (\<lambda>(s, r). map (\<lambda>t. (todo_id t, order t)) (todos s)) scenario_collision
     = Some [(''k2'', Some 1), (''k3'', Some 2), (''k4'', Some 2)]
   \<and> map_option (\<lambda>(s, r). distinct (map order (todos s))) scenario_collision = Some False"
  by code_simp

end
